theory Spec2Isabelle
  imports Main
begin

section \<open>Text: Python's \<open>str\<close> methods used by the upload task\<close>

text \<open>
  Decoded text is modelled as \<^typ>\<open>string\<close>; a \<^typ>\<open>char\<close> stands for the
  code point of the same number (0 to 255).  The classifications below are those of
  Python 3 on that range.
\<close>

definition py_ord :: "char \<Rightarrow> nat" where
  "py_ord c = of_char c"

definition isspace :: "char \<Rightarrow> bool" where
  \<comment> \<open>\<open>str.isspace\<close>, the characters \<open>str.strip()\<close> removes\<close>
  "isspace c = (let n = py_ord c in
     (9 \<le> n \<and> n \<le> 13) \<or> (28 \<le> n \<and> n \<le> 32) \<or> n = 133 \<or> n = 160)"

definition isdigit :: "char \<Rightarrow> bool" where
  \<comment> \<open>the regular expression class \<open>\d\<close> and the digits of \<open>int()\<close>\<close>
  "isdigit c = (let n = py_ord c in 48 \<le> n \<and> n \<le> 57)"

definition isalpha :: "char \<Rightarrow> bool" where
  \<comment> \<open>\<open>str.isalpha\<close>: the letters\<close>
  "isalpha c = (let n = py_ord c in
     (65 \<le> n \<and> n \<le> 90) \<or> (97 \<le> n \<and> n \<le> 122) \<or> n = 170 \<or> n = 181 \<or> n = 186 \<or>
     (192 \<le> n \<and> n \<le> 214) \<or> (216 \<le> n \<and> n \<le> 246) \<or> 248 \<le> n)"

definition isnumeric :: "char \<Rightarrow> bool" where
  \<comment> \<open>\<open>str.isnumeric\<close>: the decimal digits, superscript digits and vulgar fractions\<close>
  "isnumeric c = (let n = py_ord c in
     (48 \<le> n \<and> n \<le> 57) \<or> n = 178 \<or> n = 179 \<or> n = 185 \<or> (188 \<le> n \<and> n \<le> 190))"

definition isalnum :: "char \<Rightarrow> bool" where
  "isalnum c = (isalpha c \<or> isnumeric c)"

definition is_word :: "char \<Rightarrow> bool" where
  \<comment> \<open>the regular expression class \<open>\w\<close>; \<open>\W\<close> is its complement\<close>
  "is_word c = (isalnum c \<or> c = CHR ''_'')"

definition strip :: "string \<Rightarrow> string" where
  "strip s = rev (dropWhile isspace (rev (dropWhile isspace s)))"

definition endswith :: "string \<Rightarrow> string \<Rightarrow> bool" where
  "endswith s suffix =
     (length suffix \<le> length s \<and> drop (length s - length suffix) s = suffix)"

function remove_nonword :: "string \<Rightarrow> string" where
  \<comment> \<open>\<open>re.sub(r'\W+', '', x)\<close>: every maximal run of non-word characters is deleted\<close>
  "remove_nonword [] = []"
| "remove_nonword (c # cs) =
     (if is_word c then c # remove_nonword cs
      else remove_nonword (dropWhile (\<lambda>x. \<not> is_word x) cs))"
  by pat_completeness auto
termination
  by (relation "measure length") (auto simp: length_dropWhile_le less_Suc_eq_le)

definition clean_name :: "string \<Rightarrow> string" where
  \<comment> \<open>lines 145-146 for a header, line 155 for a mapping column\<close>
  "clean_name x = remove_nonword (strip x)"


section \<open>Errors\<close>

text \<open>
  An exception is a value: \<open>ValueError\<close> and \<open>KeyError\<close> are the two classes the task
  tells apart or raises itself, \<open>LibraryError\<close> is any other exception, with its text.
\<close>

datatype error = ValueError string | KeyError string | LibraryError string

definition py_repr :: "string \<Rightarrow> string" where
  \<comment> \<open>\<open>repr\<close> of text without quotes, backslashes or unprintable characters\<close>
  "py_repr s = CHR 0x27 # s @ [CHR 0x27]"

fun error_text :: "error \<Rightarrow> string" where
  \<comment> \<open>\<open>str(e)\<close>; a \<open>KeyError\<close> prints the \<open>repr\<close> of its key\<close>
  "error_text (ValueError m) = m"
| "error_text (KeyError k) = py_repr k"
| "error_text (LibraryError m) = m"

section \<open>Dates: \<open>pd.to_datetime\<close> with an explicit format\<close>

text \<open>
  A parsed value is a timestamp at midnight, kept as its calendar date.  A format is a
  list of directives; each directive is the regular expression that \<open>strptime\<close> puts in
  its place, given as the list of its alternatives in the order the matcher tries them.
\<close>

datatype date = Date (year: nat) (month: nat) (day: nat)

datatype directive = Dir_d | Dir_m | Dir_b | Dir_y | Dir_Y | Lit char

definition digit_val :: "char \<Rightarrow> nat" where
  "digit_val c = py_ord c - 48"

definition nonzero_digit :: "char \<Rightarrow> bool" where
  "nonzero_digit c = (isdigit c \<and> c \<noteq> CHR ''0'')"

definition tolower :: "char \<Rightarrow> char" where
  "tolower c = (if 65 \<le> py_ord c \<and> py_ord c \<le> 90 then char_of (py_ord c + 32) else c)"

definition month_abbr :: "(string \<times> nat) list" where
  "month_abbr = [(''jan'', 1), (''feb'', 2), (''mar'', 3), (''apr'', 4), (''may'', 5),
     (''jun'', 6), (''jul'', 7), (''aug'', 8), (''sep'', 9), (''oct'', 10), (''nov'', 11),
     (''dec'', 12)]"

definition alts_d :: "string \<Rightarrow> (nat \<times> string) list" where
  \<comment> \<open>\<open>%d\<close>: \<open>3[0-1]|[1-2]\d|0[1-9]|[1-9]| [1-9]\<close>\<close>
  "alts_d s =
     (case s of
        a # b # r \<Rightarrow>
          (if a = CHR ''3'' \<and> (b = CHR ''0'' \<or> b = CHR ''1'') then [(30 + digit_val b, r)] else []) @
          (if (a = CHR ''1'' \<or> a = CHR ''2'') \<and> isdigit b
           then [(10 * digit_val a + digit_val b, r)] else []) @
          (if a = CHR ''0'' \<and> nonzero_digit b then [(digit_val b, r)] else [])
      | _ \<Rightarrow> []) @
     (case s of a # r \<Rightarrow> if nonzero_digit a then [(digit_val a, r)] else [] | [] \<Rightarrow> []) @
     (case s of
        a # b # r \<Rightarrow> if a = CHR '' '' \<and> nonzero_digit b then [(digit_val b, r)] else []
      | _ \<Rightarrow> [])"

definition alts_m :: "string \<Rightarrow> (nat \<times> string) list" where
  \<comment> \<open>\<open>%m\<close>: \<open>1[0-2]|0[1-9]|[1-9]\<close>\<close>
  "alts_m s =
     (case s of
        a # b # r \<Rightarrow>
          (if a = CHR ''1'' \<and> (b = CHR ''0'' \<or> b = CHR ''1'' \<or> b = CHR ''2'')
           then [(10 + digit_val b, r)] else []) @
          (if a = CHR ''0'' \<and> nonzero_digit b then [(digit_val b, r)] else [])
      | _ \<Rightarrow> []) @
     (case s of a # r \<Rightarrow> if nonzero_digit a then [(digit_val a, r)] else [] | [] \<Rightarrow> [])"

definition alts_b :: "string \<Rightarrow> (nat \<times> string) list" where
  \<comment> \<open>\<open>%b\<close>: \<open>jan|feb|...|dec\<close>, matched ignoring case\<close>
  "alts_b s =
     (case s of
        a # b # c # r \<Rightarrow>
          (case map_of month_abbr [tolower a, tolower b, tolower c] of
             Some m \<Rightarrow> [(m, r)]
           | None \<Rightarrow> [])
      | _ \<Rightarrow> [])"

definition alts_y :: "string \<Rightarrow> (nat \<times> string) list" where
  \<comment> \<open>\<open>%y\<close>: \<open>\d\d\<close>; 00 to 68 are 2000 to 2068, 69 to 99 are 1969 to 1999\<close>
  "alts_y s =
     (case s of
        a # b # r \<Rightarrow>
          if isdigit a \<and> isdigit b
          then (let y = 10 * digit_val a + digit_val b
                in [(if y \<le> 68 then 2000 + y else 1900 + y, r)])
          else []
      | _ \<Rightarrow> [])"

definition alts_Y :: "string \<Rightarrow> (nat \<times> string) list" where
  \<comment> \<open>\<open>%Y\<close>: \<open>\d\d\d\d\<close>\<close>
  "alts_Y s =
     (case s of
        a # b # c # d # r \<Rightarrow>
          if isdigit a \<and> isdigit b \<and> isdigit c \<and> isdigit d
          then [(1000 * digit_val a + 100 * digit_val b + 10 * digit_val c + digit_val d, r)]
          else []
      | _ \<Rightarrow> [])"

fun alts :: "directive \<Rightarrow> string \<Rightarrow> date \<Rightarrow> (date \<times> string) list" where
  "alts Dir_d s (Date y m d) = map (\<lambda>(v, r). (Date y m v, r)) (alts_d s)"
| "alts Dir_m s (Date y m d) = map (\<lambda>(v, r). (Date y v d, r)) (alts_m s)"
| "alts Dir_b s (Date y m d) = map (\<lambda>(v, r). (Date y v d, r)) (alts_b s)"
| "alts Dir_y s (Date y m d) = map (\<lambda>(v, r). (Date v m d, r)) (alts_y s)"
| "alts Dir_Y s (Date y m d) = map (\<lambda>(v, r). (Date v m d, r)) (alts_Y s)"
| "alts (Lit c) s f = (case s of a # r \<Rightarrow> if a = c then [(f, r)] else [] | [] \<Rightarrow> [])"

fun first_some :: "('a \<Rightarrow> 'b option) \<Rightarrow> 'a list \<Rightarrow> 'b option" where
  "first_some g [] = None"
| "first_some g (x # xs) = (case g x of Some y \<Rightarrow> Some y | None \<Rightarrow> first_some g xs)"

fun re_match :: "directive list \<Rightarrow> string \<Rightarrow> date \<Rightarrow> (date \<times> string) option" where
  \<comment> \<open>\<open>re.match\<close> of the format's expression: the first match in the matcher's order,
      with the fields read so far and the text left over\<close>
  "re_match [] s f = Some (f, s)"
| "re_match (d # ds) s f = first_some (\<lambda>(f', r). re_match ds r f') (alts d s f)"

definition is_leap :: "nat \<Rightarrow> bool" where
  "is_leap y = (y mod 4 = 0 \<and> (y mod 100 \<noteq> 0 \<or> y mod 400 = 0))"

definition days_in_month :: "nat \<Rightarrow> nat \<Rightarrow> nat" where
  "days_in_month y m =
     (if m = 2 then (if is_leap y then 29 else 28)
      else if m = 4 \<or> m = 6 \<or> m = 9 \<or> m = 11 then 30 else 31)"

definition valid_date :: "date \<Rightarrow> bool" where
  "valid_date t = (1 \<le> year t \<and> 1 \<le> month t \<and> month t \<le> 12 \<and>
     1 \<le> day t \<and> day t \<le> days_in_month (year t) (month t))"

definition date_le :: "date \<Rightarrow> date \<Rightarrow> bool" where
  "date_le a b = (year a < year b \<or> (year a = year b \<and>
     (month a < month b \<or> (month a = month b \<and> day a \<le> day b))))"

definition in_bounds :: "date \<Rightarrow> bool" where
  \<comment> \<open>the midnights a nanosecond timestamp can hold\<close>
  "in_bounds t = (date_le (Date 1677 9 22) t \<and> date_le t (Date 2262 4 11))"

definition nat_strings :: "string list" where
  "nat_strings = [''NaT'', ''nat'', ''NAT'', ''nan'', ''NaN'', ''NAN'']"

definition to_datetime_format :: "directive list \<Rightarrow> string \<Rightarrow> error + date option" where
  \<comment> \<open>\<open>pd.to_datetime(date_str, format=fmt)\<close>; \<open>Inr None\<close> is \<open>NaT\<close>\<close>
  "to_datetime_format fmt s =
     (if s \<in> set nat_strings then Inr None
      else case re_match fmt s (Date 1900 1 1) of
        None \<Rightarrow> Inl (ValueError ''time data does not match format'')
      | Some (t, rest) \<Rightarrow>
          if rest \<noteq> [] then Inl (ValueError ''unconverted data remains'')
          else if \<not> valid_date t then Inl (ValueError ''day is out of range for month'')
          else if \<not> in_bounds t then Inl (ValueError ''Out of bounds nanosecond timestamp'')
          else Inr (Some t))"

definition fmt_d_b_y :: "directive list" where
  "fmt_d_b_y = [Dir_d, Lit CHR ''-'', Dir_b, Lit CHR ''-'', Dir_y]"

definition fmt_Y_m_d :: "directive list" where
  "fmt_Y_m_d = [Dir_Y, Lit CHR ''-'', Dir_m, Lit CHR ''-'', Dir_d]"

definition fmt_d_m_Y_slash :: "directive list" where
  "fmt_d_m_Y_slash = [Dir_d, Lit CHR ''/'', Dir_m, Lit CHR ''/'', Dir_Y]"

definition fmt_d_m_Y_dash :: "directive list" where
  "fmt_d_m_Y_dash = [Dir_d, Lit CHR ''-'', Dir_m, Lit CHR ''-'', Dir_Y]"

definition fmt_m_d_Y_slash :: "directive list" where
  "fmt_m_d_Y_slash = [Dir_m, Lit CHR ''/'', Dir_d, Lit CHR ''/'', Dir_Y]"

definition date_formats :: "directive list list" where
  \<comment> \<open>line 106: \<open>('%d-%b-%y', '%Y-%m-%d', '%d/%m/%Y', '%d-%m-%Y', '%m/%d/%Y')\<close>\<close>
  "date_formats = [fmt_d_b_y, fmt_Y_m_d, fmt_d_m_Y_slash, fmt_d_m_Y_dash, fmt_m_d_Y_slash]"

section \<open>Cells and \<open>try_parse_date\<close>\<close>

text \<open>
  A cell of a table read with \<open>dtype=str\<close> is text or the null \<open>NaN\<close>; after date
  parsing a cell may hold a timestamp or \<open>NaT\<close>.
\<close>

datatype cell = Null | Str string | Stamp date | NaT

fun isnull :: "cell \<Rightarrow> bool" where
  "isnull Null = True"
| "isnull NaT = True"
| "isnull _ = False"

fun try_formats :: "directive list list \<Rightarrow> string \<Rightarrow> error + date option option" where
  \<comment> \<open>the loop of lines 106-110: only a \<open>ValueError\<close> moves on to the next format;
      \<open>Inr None\<close> when the loop ends without returning\<close>
  "try_formats [] s = Inr None"
| "try_formats (fmt # fmts) s =
     (case to_datetime_format fmt s of
        Inr t \<Rightarrow> Inr (Some t)
      | Inl (ValueError m) \<Rightarrow> try_formats fmts s
      | Inl e \<Rightarrow> Inl e)"

definition of_timestamp :: "date option \<Rightarrow> cell" where
  "of_timestamp t = (case t of None \<Rightarrow> NaT | Some d \<Rightarrow> Stamp d)"

fun try_parse_date :: "(string \<Rightarrow> error + date option) \<Rightarrow> cell \<Rightarrow> error + cell" where
  \<comment> \<open>the first argument is \<open>pd.to_datetime(date_str, errors='coerce')\<close> of line 114,
      the parse without a format\<close>
  "try_parse_date generic (Str date_str) =
     (if strip date_str = [] then Inr NaT
      else
        let date_str = strip date_str in
        case try_formats date_formats date_str of
          Inl e \<Rightarrow> Inl e
        | Inr (Some t) \<Rightarrow> Inr (of_timestamp t)
        | Inr None \<Rightarrow>
            (case generic date_str of
               Inr t \<Rightarrow> Inr (of_timestamp t)
             | Inl e \<Rightarrow> Inr NaT))"
| "try_parse_date generic Null = Inr NaT"
| "try_parse_date generic NaT = Inr NaT"
| "try_parse_date generic (Stamp t) =
     Inl (LibraryError ''object has no attribute strip'')"

section \<open>Integer reference fields\<close>

definition int_space :: "char \<Rightarrow> bool" where
  \<comment> \<open>the white space \<open>int()\<close> skips around a literal\<close>
  "int_space c = (let n = py_ord c in (9 \<le> n \<and> n \<le> 13) \<or> n = 32 \<or> n = 133 \<or> n = 160)"

fun digits_ok :: "string \<Rightarrow> bool" where
  \<comment> \<open>decimal digits, with single underscores between digits only\<close>
  "digits_ok [] = False"
| "digits_ok [c] = isdigit c"
| "digits_ok (c # d # r) =
     (if isdigit c then (if d = CHR ''_'' then digits_ok r else digits_ok (d # r)) else False)"

definition digits_value :: "string \<Rightarrow> nat" where
  "digits_value s = foldl (\<lambda>acc c. if c = CHR ''_'' then acc else 10 * acc + digit_val c) 0 s"

definition nat_of_digits :: "string \<Rightarrow> nat" where
  \<comment> \<open>the number a string of decimal digits writes\<close>
  "nat_of_digits s = foldl (\<lambda>n c. 10 * n + digit_val c) 0 s"

definition int_max_str_digits :: nat where
  "int_max_str_digits = 4300"

definition py_int :: "string \<Rightarrow> error + int" where
  \<comment> \<open>\<open>int(s)\<close> for text \<open>s\<close>\<close>
  "py_int s =
     (let t = rev (dropWhile int_space (rev (dropWhile int_space s)));
          neg = (case t of c # r \<Rightarrow> c = CHR ''-'' | [] \<Rightarrow> False);
          body = (case t of c # r \<Rightarrow> if c = CHR ''-'' \<or> c = CHR ''+'' then r else t | [] \<Rightarrow> t)
      in if \<not> digits_ok body
         then Inl (ValueError (''invalid literal for int() with base 10: '' @ py_repr s))
         else if int_max_str_digits < length (filter isdigit body)
         then Inl (ValueError ''Exceeds the limit (4300 digits) for integer string conversion'')
         else Inr (if neg then - int (digits_value body) else int (digits_value body)))"

fun coerce_ref :: "cell \<Rightarrow> error + int" where
  \<comment> \<open>lines 183-184 and 213-215: \<open>int(v) if pd.notnull(v) else 0\<close>\<close>
  "coerce_ref (Str s) = py_int s"
| "coerce_ref (Stamp t) = Inl (LibraryError ''int() argument must be a string or a number'')"
| "coerce_ref v = Inr 0"

section \<open>Tables\<close>

text \<open>
  A \<open>DataFrame\<close>: the column labels and the rows, each row holding one cell for each
  label.  A row handed out by \<open>iterrows\<close> pairs each label with its cell.
\<close>

record frame =
  df_columns :: "string list"
  df_rows :: "cell list list"

type_synonym row = "(string \<times> cell) list"

definition select_columns :: "string list \<Rightarrow> frame \<Rightarrow> frame" where
  \<comment> \<open>line 167, \<open>df[required_columns]\<close>: for each requested label, in the order
      requested, every column that carries it\<close>
  "select_columns req df =
     \<lparr>df_columns = concat (map (\<lambda>c. filter (\<lambda>n. n = c) (df_columns df)) req),
      df_rows = map (\<lambda>r. concat (map (\<lambda>c.
          map snd (filter (\<lambda>(n, v). n = c) (zip (df_columns df) r))) req)) (df_rows df)\<rparr>"

fun sequence :: "(error + 'a) list \<Rightarrow> error + 'a list" where
  \<comment> \<open>the results in order, or the first exception\<close>
  "sequence [] = Inr []"
| "sequence (x # xs) =
     (case x of
        Inl e \<Rightarrow> Inl e
      | Inr v \<Rightarrow> (case sequence xs of Inl e \<Rightarrow> Inl e | Inr vs \<Rightarrow> Inr (v # vs)))"

definition apply_column :: "(cell \<Rightarrow> error + cell) \<Rightarrow> string \<Rightarrow> frame \<Rightarrow> error + frame" where
  \<comment> \<open>\<open>df[name] = df[name].apply(f)\<close>: a \<open>KeyError\<close> when no column carries the label;
      when several do, \<open>f\<close> is handed whole columns and its test of line 98 raises\<close>
  "apply_column f name df =
     (case filter (\<lambda>n. n = name) (df_columns df) of
        [] \<Rightarrow> Inl (KeyError name)
      | [n] \<Rightarrow>
          (case sequence (map (\<lambda>r. sequence (map (\<lambda>(n, v). if n = name then f v else Inr v)
                                  (zip (df_columns df) r))) (df_rows df)) of
             Inl e \<Rightarrow> Inl e
           | Inr rs \<Rightarrow> Inr (df\<lparr>df_rows := rs\<rparr>))
      | _ \<Rightarrow> Inl (ValueError ''The truth value of a Series is ambiguous''))"

definition iterrows :: "frame \<Rightarrow> row list" where
  "iterrows df = map (\<lambda>r. zip (df_columns df) r) (df_rows df)"

definition row_get :: "row \<Rightarrow> string \<Rightarrow> error + cell" where
  \<comment> \<open>\<open>row[name]\<close>\<close>
  "row_get r name = (case map_of r name of None \<Rightarrow> Inl (KeyError name) | Some v \<Rightarrow> Inr v)"

definition coerce_field :: "row \<Rightarrow> string \<Rightarrow> error + int" where
  \<comment> \<open>\<open>int(row[name]) if pd.notnull(row[name]) else 0\<close>\<close>
  "coerce_field r name = (case row_get r name of Inl e \<Rightarrow> Inl e | Inr v \<Rightarrow> coerce_ref v)"

definition cell_date :: "cell \<Rightarrow> date option" where
  \<comment> \<open>the value stored in a nullable date field\<close>
  "cell_date v = (case v of Stamp t \<Rightarrow> Some t | _ \<Rightarrow> None)"

section \<open>The mapping registry and the stored tables\<close>

record mapping =
  columns :: "string list"
  column_mapping :: "(string \<times> string) list"

type_synonym registry = "(string \<times> (string \<times> mapping) list) list"

definition BANK_CODE_MAPPING :: "(string \<times> int) list" where
  "BANK_CODE_MAPPING = [(''hdfc'', 101), (''icici'', 102), (''karur_vysya'', 40)]"

definition BANK_MAPPINGS :: registry where
  "BANK_MAPPINGS =
     [(''hdfc'',
        [(''booking'',
           \<lparr>columns = [''IRCTC ORDER NO.'', ''BANK BOOKING REF.NO.'', ''BOOKING AMOUNT''],
            column_mapping = [(''IRCTC ORDER NO.'', ''irctc_order_no''),
              (''BANK BOOKING REF.NO.'', ''bank_booking_ref_no''),
              (''BOOKING AMOUNT'', ''sale_amount'')]\<rparr>),
         (''refund'',
           \<lparr>columns = [''REFUND ORDER NO.'', ''REFUND AMOUNT'', ''CREDITED ON''],
            column_mapping = [(''REFUND ORDER NO.'', ''irctc_order_no''),
              (''REFUND AMOUNT'', ''sale_amount''),
              (''CREDITED ON'', ''date'')]\<rparr>)]),
      (''icici'',
        [(''booking'',
           \<lparr>columns = [''ORDER NO.'', ''REFERENCE NO.'', ''AMOUNT''],
            column_mapping = [(''ORDER NO.'', ''irctc_order_no''),
              (''REFERENCE NO.'', ''bank_booking_ref_no''),
              (''AMOUNT'', ''sale_amount''),
              (''BRANCH CODE'', ''branch_code''),
              (''OTHER COLUMN'', ''other_column'')]\<rparr>),
         (''refund'',
           \<lparr>columns = [''ORDER NO.'', ''REFUND AMOUNT'', ''CREDIT DATE''],
            column_mapping = [(''ORDER NO.'', ''irctc_order_no''),
              (''REFUND AMOUNT'', ''sale_amount''),
              (''CREDIT DATE'', ''date''),
              (''BRANCH CODE'', ''branch_code''),
              (''OTHER COLUMN'', ''other_column'')]\<rparr>)]),
      (''karur_vysya'',
        [(''booking'',
           \<lparr>columns = [''TXN DATE'', ''IRCTC ORDER NO.'', ''BANK BOOKING REF.NO.'',
              ''BOOKING AMOUNT'', ''CREDITED ON''],
            column_mapping = [(''TXNDATE'', ''txn_date''),
              (''IRCTCORDERNO'', ''irctc_order_no''),
              (''BANKBOOKINGREFNO'', ''bank_booking_ref_no''),
              (''BOOKINGAMOUNT'', ''booking_amount''),
              (''CREDITEDON'', ''credited_date'')]\<rparr>),
         (''refund'',
           \<lparr>columns = [''REFUND DATE'', ''IRCTC ORDER NO.'', ''BANK BOOKING REF.NO.'',
              ''BANK REFUND REF.NO.'', ''REFUND AMOUNT'', ''DEBITED ON''],
            column_mapping = [(''REFUNDDATE'', ''refund_date''),
              (''IRCTCORDERNO'', ''irctc_order_no''),
              (''BANKBOOKINGREFNO'', ''bank_booking_ref_no''),
              (''BANKREFUNDREFNO'', ''bank_refund_ref_no''),
              (''REFUNDAMOUNT'', ''refund_amount''),
              (''DEBITEDON'', ''debited_date'')]\<rparr>)])]"

definition get_mapping :: "registry \<Rightarrow> string \<Rightarrow> string \<Rightarrow> mapping option" where
  \<comment> \<open>line 150: \<open>BANK_MAPPINGS.get(bank_name, {}).get(transaction_type)\<close>\<close>
  "get_mapping reg bank_name transaction_type =
     (case map_of reg bank_name of
        None \<Rightarrow> None
      | Some kinds \<Rightarrow> map_of kinds transaction_type)"

definition set_columns :: "registry \<Rightarrow> string \<Rightarrow> string \<Rightarrow> string list \<Rightarrow> registry" where
  \<comment> \<open>line 157: \<open>mappings['columns'] = cleaned_mapping_columns\<close>, which writes into the
      registry entry that line 150 returned\<close>
  "set_columns reg bank_name transaction_type cols =
     map (\<lambda>(b, kinds).
       if b = bank_name
       then (b, map (\<lambda>(k, m). if k = transaction_type then (k, m\<lparr>columns := cols\<rparr>) else (k, m)) kinds)
       else (b, kinds)) reg"

record 'n BookingData =
  bank_code :: int
  txn_date :: "date option"
  irctc_order_no :: "int option"
  bank_booking_ref_no :: "int option"
  booking_amount :: "'n option"
  credited_date :: "date option"
  cus_account_no :: "string option"
  remarks :: "string option"

record 'n RefundData =
  refund_bank_code :: int
  refund_date :: "date option"
  refund_irctc_order_no :: "int option"
  refund_bank_booking_ref_no :: "int option"
  bank_refund_ref_no :: "int option"
  refund_amount :: "'n option"
  debited_date :: "date option"
  refund_cus_account_no :: "string option"
  refund_remarks :: "string option"

text \<open>
  The state a run reads and writes: the two stored tables, in insertion order, and the
  registry, which line 157 updates.
\<close>

record 'n state =
  bookings :: "'n BookingData list"
  refunds :: "'n RefundData list"
  registry :: registry

definition booking_exists :: "'n BookingData list \<Rightarrow> int \<Rightarrow> int \<Rightarrow> bool" where
  \<comment> \<open>line 187: \<open>filter(irctc_order_no=..., bank_booking_ref_no=...).exists()\<close>\<close>
  "booking_exists tbl order_no ref_no =
     list_ex (\<lambda>x. irctc_order_no x = Some order_no \<and> bank_booking_ref_no x = Some ref_no) tbl"

definition refund_exists :: "'n RefundData list \<Rightarrow> int \<Rightarrow> int \<Rightarrow> bool" where
  \<comment> \<open>line 218\<close>
  "refund_exists tbl order_no ref_no =
     list_ex (\<lambda>x. refund_irctc_order_no x = Some order_no \<and>
                   refund_bank_booking_ref_no x = Some ref_no) tbl"

section \<open>The library calls of the task\<close>

text \<open>
  The task calls pandas, pyexcel, json and the storage layer, which are not part of the
  repository.  They are parameters of the model: each is a function of its arguments that
  returns a value or raises.  \<open>ods_to_csv\<close> stands for lines 268-272 and
  \<open>json_to_csv\<close> for lines 277-279; \<open>to_numeric\<close> is
  \<open>pd.to_numeric(v, errors='coerce')\<close>, whose results have the type \<open>'n\<close>, with
  \<open>None\<close> for \<open>NaN\<close>.  \<open>booking_create\<close> and \<open>refund_create\<close> are
  \<open>objects.create\<close>: given the table and the new record, the exception the storage
  layer raises instead of storing it (a value it cannot convert, an integer out of range, a
  violated constraint), or \<open>None\<close> when the record is stored.
\<close>

record 'n lib =
  decode :: "string \<Rightarrow> string"
  read_csv :: "string \<Rightarrow> char \<Rightarrow> error + frame"
  read_excel :: "string \<Rightarrow> error + frame"
  ods_to_csv :: "string \<Rightarrow> error + string"
  json_to_csv :: "string \<Rightarrow> error + string"
  to_datetime_generic :: "string \<Rightarrow> error + date option"
  to_numeric :: "cell \<Rightarrow> 'n option"
  booking_create :: "'n BookingData list \<Rightarrow> 'n BookingData \<Rightarrow> error option"
  refund_create :: "'n RefundData list \<Rightarrow> 'n RefundData \<Rightarrow> error option"

section \<open>The row loops\<close>

definition booking_row :: "'n lib \<Rightarrow> int \<Rightarrow> row \<Rightarrow> 'n state \<Rightarrow> (error + unit) \<times> 'n state" where
  \<comment> \<open>lines 183-198, one pass of the loop; when \<open>create\<close> raises nothing is stored\<close>
  "booking_row lib code r st =
     (case coerce_field r ''irctc_order_no'' of
        Inl e \<Rightarrow> (Inl e, st)
      | Inr order_no \<Rightarrow>
     (case coerce_field r ''bank_booking_ref_no'' of
        Inl e \<Rightarrow> (Inl e, st)
      | Inr ref_no \<Rightarrow>
     (case row_get r ''booking_amount'' of
        Inl e \<Rightarrow> (Inl e, st)
      | Inr amount \<Rightarrow>
          if booking_exists (bookings st) order_no ref_no then (Inr (), st)
          else
            (case row_get r ''txn_date'' of
               Inl e \<Rightarrow> (Inl e, st)
             | Inr txn \<Rightarrow>
            (case row_get r ''credited_date'' of
               Inl e \<Rightarrow> (Inl e, st)
             | Inr credited \<Rightarrow>
                 let record = \<lparr>bank_code = code, txn_date = cell_date txn,
                      irctc_order_no = Some order_no, bank_booking_ref_no = Some ref_no,
                      booking_amount = to_numeric lib amount,
                      credited_date = cell_date credited,
                      cus_account_no = None, remarks = None\<rparr>
                 in (case booking_create lib (bookings st) record of
                       Some e \<Rightarrow> (Inl e, st)
                     | None \<Rightarrow> (Inr (), st\<lparr>bookings := bookings st @ [record]\<rparr>)))))))"

fun booking_rows :: "'n lib \<Rightarrow> int \<Rightarrow> row list \<Rightarrow> 'n state \<Rightarrow> (error + unit) \<times> 'n state" where
  \<comment> \<open>the loop of line 182; an exception leaves the rows stored so far in place\<close>
  "booking_rows lib code [] st = (Inr (), st)"
| "booking_rows lib code (r # rs) st =
     (case booking_row lib code r st of
        (Inl e, st') \<Rightarrow> (Inl e, st')
      | (Inr u, st') \<Rightarrow> booking_rows lib code rs st')"

definition refund_row :: "'n lib \<Rightarrow> int \<Rightarrow> row \<Rightarrow> 'n state \<Rightarrow> (error + unit) \<times> 'n state" where
  \<comment> \<open>lines 213-230, one pass of the loop; when \<open>create\<close> raises nothing is stored\<close>
  "refund_row lib code r st =
     (case coerce_field r ''irctc_order_no'' of
        Inl e \<Rightarrow> (Inl e, st)
      | Inr order_no \<Rightarrow>
     (case coerce_field r ''bank_booking_ref_no'' of
        Inl e \<Rightarrow> (Inl e, st)
      | Inr ref_no \<Rightarrow>
     (case coerce_field r ''bank_refund_ref_no'' of
        Inl e \<Rightarrow> (Inl e, st)
      | Inr refund_ref_no \<Rightarrow>
     (case row_get r ''refund_amount'' of
        Inl e \<Rightarrow> (Inl e, st)
      | Inr amount \<Rightarrow>
          if refund_exists (refunds st) order_no ref_no then (Inr (), st)
          else
            (case row_get r ''refund_date'' of
               Inl e \<Rightarrow> (Inl e, st)
             | Inr refunded \<Rightarrow>
            (case row_get r ''debited_date'' of
               Inl e \<Rightarrow> (Inl e, st)
             | Inr debited \<Rightarrow>
                 let record = \<lparr>refund_bank_code = code, refund_date = cell_date refunded,
                      refund_irctc_order_no = Some order_no,
                      refund_bank_booking_ref_no = Some ref_no,
                      bank_refund_ref_no = Some refund_ref_no,
                      refund_amount = to_numeric lib amount,
                      debited_date = cell_date debited,
                      refund_cus_account_no = None, refund_remarks = None\<rparr>
                 in (case refund_create lib (refunds st) record of
                       Some e \<Rightarrow> (Inl e, st)
                     | None \<Rightarrow> (Inr (), st\<lparr>refunds := refunds st @ [record]\<rparr>))))))))"

fun refund_rows :: "'n lib \<Rightarrow> int \<Rightarrow> row list \<Rightarrow> 'n state \<Rightarrow> (error + unit) \<times> 'n state" where
  \<comment> \<open>the loop of line 212\<close>
  "refund_rows lib code [] st = (Inr (), st)"
| "refund_rows lib code (r # rs) st =
     (case refund_row lib code r st of
        (Inl e, st') \<Rightarrow> (Inl e, st')
      | (Inr u, st') \<Rightarrow> refund_rows lib code rs st')"

section \<open>The task\<close>

definition possible_delimiters :: "char list" where
  "possible_delimiters =
     [CHR '','', CHR '';'', CHR 0x09, CHR ''|'', CHR '' '', CHR ''.'', CHR ''_'']"

definition convert_body :: "'n lib \<Rightarrow> string \<Rightarrow> string \<Rightarrow> error + string" where
  \<comment> \<open>lines 262-282, the body of the converter's \<open>try\<close>\<close>
  "convert_body lib content file_name =
     (if endswith file_name ''.ods'' then ods_to_csv lib content
      else if endswith file_name ''.json'' then json_to_csv lib content
      else Inl (ValueError (''Unsupported file format: '' @ file_name)))"

definition convert_to_csv :: "'n lib \<Rightarrow> string \<Rightarrow> string \<Rightarrow> error + string" where
  \<comment> \<open>lines 259-286: the \<open>except\<close> clause of lines 284-286 turns every exception of the
      body, the unsupported format of line 282 included, into the empty text\<close>
  "convert_to_csv lib content file_name =
     (case convert_body lib content file_name of
        Inr csv \<Rightarrow> Inr csv
      | Inl e \<Rightarrow> Inr [])"

definition load_frame :: "'n lib \<Rightarrow> string \<Rightarrow> string \<Rightarrow> error + frame" where
  \<comment> \<open>lines 129-142\<close>
  "load_frame lib file_content file_name =
     (if endswith file_name ''.csv'' \<or> endswith file_name ''.txt'' then
        let file_str = decode lib file_content;
            delimiter = (case find (\<lambda>delim. delim \<in> set file_str) possible_delimiters of
                           Some delim \<Rightarrow> delim
                         | None \<Rightarrow> CHR '','')
        in read_csv lib file_str delimiter
      else if endswith file_name ''.xlsx'' \<or> endswith file_name ''.xls'' then
        read_excel lib file_content
      else
        (case convert_to_csv lib file_content file_name of
           Inl e \<Rightarrow> Inl e
         | Inr file_str \<Rightarrow> read_csv lib file_str CHR '',''))"

fun join :: "string \<Rightarrow> string list \<Rightarrow> string" where
  "join sep [] = []"
| "join sep [x] = x"
| "join sep (x # y # ys) = x @ sep @ join sep (y # ys)"

definition py_list_repr :: "string list \<Rightarrow> string" where
  \<comment> \<open>a list of names as an f-string prints it\<close>
  "py_list_repr xs = ''['' @ join '', '' (map py_repr xs) @ '']''"

definition bank_code_of :: "string \<Rightarrow> error + int" where
  \<comment> \<open>lines 178-180 and 208-210\<close>
  "bank_code_of bank_name =
     (case map_of BANK_CODE_MAPPING bank_name of
        None \<Rightarrow> Inl (ValueError (''No bank code found for bank: '' @ bank_name))
      | Some c \<Rightarrow>
          if c = 0 then Inl (ValueError (''No bank code found for bank: '' @ bank_name))
          else Inr c)"

definition booking_branch :: "'n lib \<Rightarrow> string \<Rightarrow> frame \<Rightarrow> 'n state \<Rightarrow> (error + unit) \<times> 'n state" where
  \<comment> \<open>lines 171-198; lines 174-176 only write to the log\<close>
  "booking_branch lib bank_name df st =
     (case apply_column (try_parse_date (to_datetime_generic lib)) ''txn_date'' df of
        Inl e \<Rightarrow> (Inl e, st)
      | Inr df1 \<Rightarrow>
     (case apply_column (try_parse_date (to_datetime_generic lib)) ''credited_date'' df1 of
        Inl e \<Rightarrow> (Inl e, st)
      | Inr df2 \<Rightarrow>
     (case bank_code_of bank_name of
        Inl e \<Rightarrow> (Inl e, st)
      | Inr code \<Rightarrow> booking_rows lib code (iterrows df2) st)))"

definition refund_branch :: "'n lib \<Rightarrow> string \<Rightarrow> frame \<Rightarrow> 'n state \<Rightarrow> (error + unit) \<times> 'n state" where
  \<comment> \<open>lines 201-230\<close>
  "refund_branch lib bank_name df st =
     (case apply_column (try_parse_date (to_datetime_generic lib)) ''refund_date'' df of
        Inl e \<Rightarrow> (Inl e, st)
      | Inr df1 \<Rightarrow>
     (case apply_column (try_parse_date (to_datetime_generic lib)) ''debited_date'' df1 of
        Inl e \<Rightarrow> (Inl e, st)
      | Inr df2 \<Rightarrow>
     (case bank_code_of bank_name of
        Inl e \<Rightarrow> (Inl e, st)
      | Inr code \<Rightarrow> refund_rows lib code (iterrows df2) st)))"

definition try_block ::
  "'n lib \<Rightarrow> string \<Rightarrow> string \<Rightarrow> string \<Rightarrow> string \<Rightarrow> 'n state \<Rightarrow> (error + unit) \<times> 'n state" where
  \<comment> \<open>lines 124-232, the body of the \<open>try\<close>: the exception raised or the normal end,
      with the state as the run leaves it\<close>
  "try_block lib file_content file_name bank_name transaction_type st =
     (case load_frame lib file_content file_name of
        Inl e \<Rightarrow> (Inl e, st)
      | Inr df0 \<Rightarrow>
          let df = df0\<lparr>df_columns := map clean_name (df_columns df0)\<rparr> in
          (case get_mapping (registry st) bank_name transaction_type of
             None \<Rightarrow>
               (Inl (ValueError (''No mapping found for bank: '' @ bank_name @
                                 '', transaction type: '' @ transaction_type)), st)
           | Some mappings \<Rightarrow>
               let cleaned_mapping_columns = map clean_name (columns mappings);
                   st1 = st\<lparr>registry := set_columns (registry st) bank_name transaction_type
                                            cleaned_mapping_columns\<rparr>;
                   required_columns = cleaned_mapping_columns;
                   missing_columns = filter (\<lambda>col. col \<notin> set (df_columns df)) required_columns
               in if missing_columns \<noteq> []
                  then (Inl (ValueError (''Missing columns in DataFrame: '' @
                                         py_list_repr missing_columns)), st1)
                  else
                    let df' = select_columns required_columns df in
                    if transaction_type = ''booking'' then booking_branch lib bank_name df' st1
                    else if transaction_type = ''refund'' then refund_branch lib bank_name df' st1
                    else (Inr (), st1)))"

definition process_uploaded_files ::
  "'n lib \<Rightarrow> string \<Rightarrow> string \<Rightarrow> string \<Rightarrow> string \<Rightarrow> 'n state \<Rightarrow> (error + string) \<times> 'n state" where
  \<comment> \<open>lines 120-237: what the task hands to its caller, a returned text (\<open>Inr\<close>) or an
      exception (\<open>Inl\<close>), and the state it leaves\<close>
  "process_uploaded_files lib file_content file_name bank_name transaction_type st =
     (case try_block lib file_content file_name bank_name transaction_type st of
        (Inr u, st') \<Rightarrow> (Inr (''Successfully processed '' @ file_name), st')
      | (Inl e, st') \<Rightarrow> (Inr (''Failed to process '' @ file_name @ '': '' @ error_text e), st'))"

section \<open>A library instance for plain delimited text\<close>

text \<open>
  To run the task on a concrete file the library calls need values.  This instance reads
  unquoted delimited ASCII text the way \<open>pd.read_csv(..., dtype=str)\<close> does: blank lines
  are skipped, the first line is the header, an empty field or one of the standard
  missing-value tokens is the null, a short line is filled with nulls, and a text with no
  line at all raises \<open>No columns to parse from file\<close>.  A line longer than the header
  is rejected.  Decoding keeps the ASCII bytes and drops the others.  The spreadsheet, ODS
  and JSON readers of the instance reject every input, and the parse of a date without a
  format always gives \<open>NaT\<close>.  The storage layer of the instance refuses an amount that
  is \<open>NaN\<close> or came back from \<open>pd.to_numeric\<close> as an integer, and a reference number
  outside the 64-bit range.
\<close>

fun split_on :: "char \<Rightarrow> string \<Rightarrow> string list" where
  "split_on d [] = [[]]"
| "split_on d (c # cs) =
     (if c = d then [] # split_on d cs
      else (case split_on d cs of x # xs \<Rightarrow> (c # x) # xs | [] \<Rightarrow> [[c]]))"

definition na_values :: "string list" where
  "na_values = ['''', ''#N/A'', ''#N/A N/A'', ''#NA'', ''-1.#IND'', ''-1.#QNAN'', ''-NaN'',
     ''-nan'', ''1.#IND'', ''1.#QNAN'', ''<NA>'', ''N/A'', ''NA'', ''NULL'', ''NaN'', ''None'',
     ''n/a'', ''nan'', ''null'']"

definition chomp :: "string \<Rightarrow> string" where
  \<comment> \<open>a line without its carriage return\<close>
  "chomp l = (if l \<noteq> [] \<and> last l = CHR 0x0D then butlast l else l)"

definition plain_read_csv :: "string \<Rightarrow> char \<Rightarrow> error + frame" where
  "plain_read_csv text delimiter =
     (case filter (\<lambda>l. l \<noteq> []) (map chomp (split_on (CHR 0x0A) text)) of
        [] \<Rightarrow> Inl (LibraryError ''No columns to parse from file'')
      | h # ls \<Rightarrow>
          let names = split_on delimiter h;
              fields = map (split_on delimiter) ls
          in if list_ex (\<lambda>fs. length names < length fs) fields
             then Inl (LibraryError ''Error tokenizing data'')
             else Inr \<lparr>df_columns = names,
                       df_rows = map (\<lambda>fs.
                         map (\<lambda>f. if f \<in> set na_values then Null else Str f) fs @
                         replicate (length names - length fs) Null) fields\<rparr>)"

definition plain_to_numeric :: "cell \<Rightarrow> (int \<times> nat) option" where
  \<comment> \<open>an unsigned decimal numeral, kept exactly: its digits as an integer and the number
      of digits after the point; anything else is \<open>NaN\<close>\<close>
  "plain_to_numeric v =
     (case v of
        Str s \<Rightarrow>
          (case split_on CHR ''.'' s of
             [a] \<Rightarrow> if a \<noteq> [] \<and> list_all isdigit a then Some (int (nat_of_digits a), 0) else None
           | [a, b] \<Rightarrow>
               if a \<noteq> [] \<and> b \<noteq> [] \<and> list_all isdigit (a @ b)
               then Some (int (nat_of_digits (a @ b)), length b) else None
           | _ \<Rightarrow> None)
      | _ \<Rightarrow> None)"

definition in_int64 :: "int option \<Rightarrow> bool" where
  "in_int64 v = (case v of None \<Rightarrow> True | Some i \<Rightarrow> - (2 ^ 63) \<le> i \<and> i < 2 ^ 63)"

definition plain_amount_error :: "(int \<times> nat) option \<Rightarrow> error option" where
  \<comment> \<open>a decimal field takes a finite floating-point amount; \<open>NaN\<close> and an amount that
      \<open>pd.to_numeric\<close> returned as an integer are refused\<close>
  "plain_amount_error a =
     (case a of
        None \<Rightarrow> Some (LibraryError ''value must be a decimal number'')
      | Some (digits, scale) \<Rightarrow>
          if scale = 0 then Some (LibraryError ''value must be a decimal number'') else None)"

definition plain_booking_create :: "(int \<times> nat) BookingData list \<Rightarrow> (int \<times> nat) BookingData \<Rightarrow> error option" where
  "plain_booking_create tbl x =
     (case plain_amount_error (booking_amount x) of
        Some e \<Rightarrow> Some e
      | None \<Rightarrow>
          if in_int64 (irctc_order_no x) \<and> in_int64 (bank_booking_ref_no x) then None
          else Some (LibraryError ''integer out of range''))"

definition plain_refund_create :: "(int \<times> nat) RefundData list \<Rightarrow> (int \<times> nat) RefundData \<Rightarrow> error option" where
  "plain_refund_create tbl x =
     (case plain_amount_error (refund_amount x) of
        Some e \<Rightarrow> Some e
      | None \<Rightarrow>
          if in_int64 (refund_irctc_order_no x) \<and> in_int64 (refund_bank_booking_ref_no x) \<and>
             in_int64 (bank_refund_ref_no x) then None
          else Some (LibraryError ''integer out of range''))"

definition plain_lib :: "(int \<times> nat) lib" where
  "plain_lib =
     \<lparr>decode = filter (\<lambda>c. py_ord c < 128),
      read_csv = plain_read_csv,
      read_excel = (\<lambda>content. Inl (LibraryError ''File is not a zip file'')),
      ods_to_csv = (\<lambda>content. Inl (LibraryError ''File is not a zip file'')),
      json_to_csv = (\<lambda>content. Inl (LibraryError ''Expecting value'')),
      to_datetime_generic = (\<lambda>s. Inr None),
      to_numeric = plain_to_numeric,
      booking_create = plain_booking_create,
      refund_create = plain_refund_create\<rparr>"

definition initial_state :: "'n state" where
  \<comment> \<open>empty tables and the registry as the module defines it\<close>
  "initial_state = \<lparr>bookings = [], refunds = [], registry = BANK_MAPPINGS\<rparr>"

definition karur_file :: string where
  \<comment> \<open>the file of the end-to-end scenario\<close>
  "karur_file = ''TXN DATE,IRCTC ORDER NO.,BANK BOOKING REF.NO.,BOOKING AMOUNT,CREDITED ON'' @
     [CHR 0x0A] @ ''01-Jan-24,12345,67890,1500.50,05-Jan-24'' @ [CHR 0x0A]"

section \<open>Statements of the specification\<close>

definition spec_first_successful :: "string \<Rightarrow> date option option" where
  \<comment> \<open>the specification's reading of date parsing: DD-Mon-YY, YYYY-MM-DD, DD/MM/YYYY,
      DD-MM-YYYY, MM/DD/YYYY, tried in that order, the first that parses wins\<close>
  "spec_first_successful s =
     first_some (\<lambda>fmt. case to_datetime_format fmt s of Inr t \<Rightarrow> Some t | Inl e \<Rightarrow> None)
       [[Dir_d, Lit CHR ''-'', Dir_b, Lit CHR ''-'', Dir_y],
        [Dir_Y, Lit CHR ''-'', Dir_m, Lit CHR ''-'', Dir_d],
        [Dir_d, Lit CHR ''/'', Dir_m, Lit CHR ''/'', Dir_Y],
        [Dir_d, Lit CHR ''-'', Dir_m, Lit CHR ''-'', Dir_Y],
        [Dir_m, Lit CHR ''/'', Dir_d, Lit CHR ''/'', Dir_Y]]"



definition booking_key :: "'n BookingData \<Rightarrow> int option \<times> int option" where
  \<comment> \<open>the pair the existence check of line 187 compares\<close>
  "booking_key x = (irctc_order_no x, bank_booking_ref_no x)"

definition refund_key :: "'n RefundData \<Rightarrow> int option \<times> int option" where
  \<comment> \<open>the pair the existence check of line 218 compares\<close>
  "refund_key x = (refund_irctc_order_no x, refund_bank_booking_ref_no x)"

fun reg_after :: "(string \<times> string) list \<Rightarrow> registry" where
  \<comment> \<open>the registry once earlier runs, for the given banks and kinds (latest first), have
      each passed line 157\<close>
  "reg_after [] = BANK_MAPPINGS"
| "reg_after ((bank_name, transaction_type) # earlier) =
     (case get_mapping (reg_after earlier) bank_name transaction_type of
        None \<Rightarrow> reg_after earlier
      | Some mappings \<Rightarrow>
          set_columns (reg_after earlier) bank_name transaction_type
            (map clean_name (columns mappings)))"

fun contains :: "string \<Rightarrow> string \<Rightarrow> bool" where
  \<comment> \<open>\<open>sub in s\<close>\<close>
  "contains sub [] = (sub = [])"
| "contains sub (c # cs) = (take (length sub) (c # cs) = sub \<or> contains sub cs)"

definition stored_tables :: "'n state \<Rightarrow> 'n BookingData list \<times> 'n RefundData list" where
  \<comment> \<open>the stored-table contents of a state\<close>
  "stored_tables st = (bookings st, refunds st)"

definition null_refs_row :: row where
  \<comment> \<open>a booking row whose two reference fields are missing\<close>
  "null_refs_row = [(''txn_date'', Stamp (Date 2024 1 1)), (''irctc_order_no'', Null),
     (''bank_booking_ref_no'', Null), (''booking_amount'', Str ''10.00''),
     (''credited_date'', NaT)]"

definition null_refs_refund_row :: row where
  \<comment> \<open>a refund row whose reference fields are missing\<close>
  "null_refs_refund_row = [(''refund_date'', Stamp (Date 2024 1 1)), (''irctc_order_no'', Null),
     (''bank_booking_ref_no'', Null), (''bank_refund_ref_no'', Null),
     (''refund_amount'', Str ''10.00''), (''debited_date'', NaT)]"

section \<open>Column names\<close>

lemma remove_nonword_filter: "remove_nonword s = filter is_word s"
proof (induction s rule: remove_nonword.induct)
  case 1
  show ?case by simp
next
  case (2 c cs)
  have "filter is_word (dropWhile (\<lambda>x. \<not> is_word x) cs) = filter is_word cs"
    by (induction cs) auto
  with 2 show ?case by simp
qed

lemma clean_name_filter: "clean_name x = filter is_word (strip x)"
  by (simp add: clean_name_def remove_nonword_filter)

lemma is_word_cases: "is_word c \<Longrightarrow> isalpha c \<or> isnumeric c \<or> c = CHR ''_''"
  by (auto simp: is_word_def isalnum_def)

lemma space_not_word: "isspace c \<Longrightarrow> \<not> is_word c"
  by (auto simp: isspace_def is_word_def isalnum_def isalpha_def isnumeric_def py_ord_def Let_def)

lemma dropWhile_none: "(\<And>c. c \<in> set xs \<Longrightarrow> \<not> P c) \<Longrightarrow> dropWhile P xs = xs"
  by (cases xs) auto

lemma strip_no_space: "(\<And>c. c \<in> set xs \<Longrightarrow> \<not> isspace c) \<Longrightarrow> strip xs = xs"
proof -
  assume a: "\<And>c. c \<in> set xs \<Longrightarrow> \<not> isspace c"
  then have "dropWhile isspace xs = xs" by (rule dropWhile_none)
  moreover from a have "dropWhile isspace (rev xs) = rev xs" by (intro dropWhile_none) simp
  ultimately show ?thesis by (simp add: strip_def)
qed

lemma clean_name_idem: "clean_name (clean_name x) = clean_name x"
proof -
  have "strip (filter is_word (strip x)) = filter is_word (strip x)"
    by (rule strip_no_space) (auto dest: space_not_word)
  then show ?thesis by (simp add: clean_name_filter)
qed



section \<open>Date parsing\<close>

lemma to_datetime_format_error:
  "to_datetime_format fmt s = Inl e \<Longrightarrow> \<exists>m. e = ValueError m"
  by (auto simp: to_datetime_format_def split: if_splits option.splits prod.splits)

lemma try_formats_first_some:
  "try_formats fmts s =
     Inr (first_some (\<lambda>fmt. case to_datetime_format fmt s of Inr t \<Rightarrow> Some t | Inl e \<Rightarrow> None) fmts)"
proof (induction fmts)
  case Nil
  show ?case by simp
next
  case (Cons fmt fmts)
  show ?case
  proof (cases "to_datetime_format fmt s")
    case (Inl e)
    with to_datetime_format_error obtain m where "e = ValueError m" by blast
    with Inl Cons show ?thesis by simp
  next
    case (Inr t)
    then show ?thesis by simp
  qed
qed

lemma try_formats_spec: "try_formats date_formats s = Inr (spec_first_successful s)"
  by (simp add: try_formats_first_some spec_first_successful_def date_formats_def
      fmt_d_b_y_def fmt_Y_m_d_def fmt_d_m_Y_slash_def fmt_d_m_Y_dash_def fmt_m_d_Y_slash_def)

text \<open>
  Claim C6.  \<open>try_parse_date\<close> tries the five explicit formats DD-Mon-YY, YYYY-MM-DD,
  DD/MM/YYYY, DD-MM-YYYY, MM/DD/YYYY in that order and returns the first successful parse;
  the parse without a format is consulted only when all five fail.  The empty text and a
  text of white space give the missing value, and each of 01-Jan-24, 2024-01-01,
  01/01/2024 and 01-01-2024 gives the first of January 2024.
\<close>

theorem try_parse_date_formats_in_order:
  "try_parse_date generic (Str s) =
     (if strip s = [] then Inr NaT
      else case spec_first_successful (strip s) of
             Some t \<Rightarrow> Inr (of_timestamp t)
           | None \<Rightarrow> (case generic (strip s) of
                        Inr t \<Rightarrow> Inr (of_timestamp t)
                      | Inl e \<Rightarrow> Inr NaT)) \<and>
   try_parse_date generic (Str '''') = Inr NaT \<and>
   try_parse_date generic (Str ''   '') = Inr NaT \<and>
   try_parse_date generic (Str ''01-Jan-24'') = Inr (Stamp (Date 2024 1 1)) \<and>
   try_parse_date generic (Str ''2024-01-01'') = Inr (Stamp (Date 2024 1 1)) \<and>
   try_parse_date generic (Str ''01/01/2024'') = Inr (Stamp (Date 2024 1 1)) \<and>
   try_parse_date generic (Str ''01-01-2024'') = Inr (Stamp (Date 2024 1 1))"
proof -
  have general: "try_parse_date generic (Str s) =
     (if strip s = [] then Inr NaT
      else case spec_first_successful (strip s) of
             Some t \<Rightarrow> Inr (of_timestamp t)
           | None \<Rightarrow> (case generic (strip s) of
                        Inr t \<Rightarrow> Inr (of_timestamp t)
                      | Inl e \<Rightarrow> Inr NaT))"
    by (simp add: try_formats_spec Let_def)
  have empty: "try_parse_date generic (Str '''') = Inr NaT"
    by code_simp
  have blank: "try_parse_date generic (Str ''   '') = Inr NaT"
    by code_simp
  have l1: "try_parse_date generic (Str ''01-Jan-24'') = Inr (Stamp (Date 2024 1 1))"
    by code_simp
  have l2: "try_parse_date generic (Str ''2024-01-01'') = Inr (Stamp (Date 2024 1 1))"
    by code_simp
  have l3: "try_parse_date generic (Str ''01/01/2024'') = Inr (Stamp (Date 2024 1 1))"
    by code_simp
  have l4: "try_parse_date generic (Str ''01-01-2024'') = Inr (Stamp (Date 2024 1 1))"
    by code_simp
  from general empty blank l1 l2 l3 l4 show ?thesis by blast
qed

theorem try_parse_date_formats_in_order_witness:
  "try_parse_date (\<lambda>s. Inr None) (Str '' 02/01/2024'') = Inr (Stamp (Date 2024 1 2)) \<and>
   try_parse_date (\<lambda>s. Inr (Some (Date 2024 3 5))) (Str ''5 March 2024'') =
     Inr (Stamp (Date 2024 3 5))"
proof -
  have a: "strip '' 02/01/2024'' \<noteq> []"
    by code_simp
  have b: "spec_first_successful (strip '' 02/01/2024'') = Some (Some (Date 2024 1 2))"
    by code_simp
  have c: "strip ''5 March 2024'' \<noteq> []"
    by code_simp
  have d: "spec_first_successful (strip ''5 March 2024'') = None"
    by code_simp
  show ?thesis
    using try_parse_date_formats_in_order [of "\<lambda>s. Inr None" "'' 02/01/2024''"]
      try_parse_date_formats_in_order [of "\<lambda>s. Inr (Some (Date 2024 3 5))" "''5 March 2024''"]
    by (simp only: a b c d if_False option.case sum.case of_timestamp_def)
qed

text \<open>
  Claim C10.  \<open>try_parse_date\<close> returns for the null and for every text: the result is a
  timestamp or the missing marker \<open>NaT\<close>, whatever the parse without a format does with
  the text, raising included.
\<close>

theorem try_parse_date_total:
  "try_parse_date generic Null = Inr NaT \<and>
   (try_parse_date generic (Str s) = Inr NaT \<or>
    (\<exists>t. try_parse_date generic (Str s) = Inr (Stamp t)))"
proof -
  obtain r where r: "try_formats date_formats (strip s) = Inr r"
    using try_formats_first_some by blast
  show ?thesis
    by (cases r; cases "generic (strip s)")
       (auto simp: r of_timestamp_def Let_def split: option.splits)
qed

section \<open>Integer coercion\<close>














section \<open>The row loops create no duplicate keys\<close>

lemma booking_exists_key:
  "booking_exists tbl a b \<longleftrightarrow> (Some a, Some b) \<in> set (map booking_key tbl)"
  by (force simp: booking_exists_def booking_key_def list_ex_iff image_iff)

lemma refund_exists_key:
  "refund_exists tbl a b \<longleftrightarrow> (Some a, Some b) \<in> set (map refund_key tbl)"
  by (force simp: refund_exists_def refund_key_def list_ex_iff image_iff)

lemma booking_row_appends:
  "refunds (snd (booking_row lib code r st)) = refunds st \<and>
   registry (snd (booking_row lib code r st)) = registry st \<and>
   (bookings (snd (booking_row lib code r st)) = bookings st \<or>
    (\<exists>x. bookings (snd (booking_row lib code r st)) = bookings st @ [x] \<and>
         booking_key x \<notin> set (map booking_key (bookings st))))"
  by (auto simp: booking_row_def booking_exists_key booking_key_def Let_def
      split: sum.splits option.splits)

lemma refund_row_appends:
  "bookings (snd (refund_row lib code r st)) = bookings st \<and>
   registry (snd (refund_row lib code r st)) = registry st \<and>
   (refunds (snd (refund_row lib code r st)) = refunds st \<or>
    (\<exists>x. refunds (snd (refund_row lib code r st)) = refunds st @ [x] \<and>
         refund_key x \<notin> set (map refund_key (refunds st))))"
  by (auto simp: refund_row_def refund_exists_key refund_key_def Let_def
      split: sum.splits option.splits)

lemma booking_rows_appends:
  "refunds (snd (booking_rows lib code rs st)) = refunds st \<and>
   (\<exists>new. bookings (snd (booking_rows lib code rs st)) = bookings st @ new \<and>
      distinct (map booking_key new) \<and>
      set (map booking_key new) \<inter> set (map booking_key (bookings st)) = {})"
proof (induction rs arbitrary: st)
  case Nil
  show ?case by simp
next
  case (Cons r rs)
  obtain res st1 where row: "booking_row lib code r st = (res, st1)"
    by (cases "booking_row lib code r st")
  from booking_row_appends [of lib code r st] row
  have ref1: "refunds st1 = refunds st"
    and step: "bookings st1 = bookings st \<or>
      (\<exists>x. bookings st1 = bookings st @ [x] \<and> booking_key x \<notin> set (map booking_key (bookings st)))"
    by simp_all
  then obtain n1 where n1: "bookings st1 = bookings st @ n1"
    "distinct (map booking_key n1)"
    "set (map booking_key n1) \<inter> set (map booking_key (bookings st)) = {}"
    by (elim disjE exE) (force intro: that[of "[]"], force)
  show ?case
  proof (cases res)
    case (Inl e)
    with row n1 ref1 show ?thesis by auto
  next
    case (Inr u)
    from Cons.IH [of st1] obtain n2 where n2:
      "refunds (snd (booking_rows lib code rs st1)) = refunds st1"
      "bookings (snd (booking_rows lib code rs st1)) = bookings st1 @ n2"
      "distinct (map booking_key n2)"
      "set (map booking_key n2) \<inter> set (map booking_key (bookings st1)) = {}"
      by blast
    have "bookings (snd (booking_rows lib code (r # rs) st)) = bookings st @ (n1 @ n2)"
      using row Inr n1 n2 by simp
    moreover have "distinct (map booking_key (n1 @ n2))"
      using n1 n2 by auto
    moreover have "set (map booking_key (n1 @ n2)) \<inter> set (map booking_key (bookings st)) = {}"
      using n1 n2 by auto
    moreover have "refunds (snd (booking_rows lib code (r # rs) st)) = refunds st"
      using row Inr n2 ref1 by simp
    ultimately show ?thesis by blast
  qed
qed


lemma refund_rows_appends:
  "bookings (snd (refund_rows lib code rs st)) = bookings st \<and>
   (\<exists>new. refunds (snd (refund_rows lib code rs st)) = refunds st @ new \<and>
      distinct (map refund_key new) \<and>
      set (map refund_key new) \<inter> set (map refund_key (refunds st)) = {})"
proof (induction rs arbitrary: st)
  case Nil
  show ?case by simp
next
  case (Cons r rs)
  obtain res st1 where row: "refund_row lib code r st = (res, st1)"
    by (cases "refund_row lib code r st")
  from refund_row_appends [of lib code r st] row
  have keep1: "bookings st1 = bookings st"
    and step: "refunds st1 = refunds st \<or>
      (\<exists>x. refunds st1 = refunds st @ [x] \<and> refund_key x \<notin> set (map refund_key (refunds st)))"
    by simp_all
  then obtain n1 where n1: "refunds st1 = refunds st @ n1"
    "distinct (map refund_key n1)"
    "set (map refund_key n1) \<inter> set (map refund_key (refunds st)) = {}"
    by (elim disjE exE) (force intro: that[of "[]"], force)
  show ?case
  proof (cases res)
    case (Inl e)
    with row n1 keep1 show ?thesis by auto
  next
    case (Inr u)
    from Cons.IH [of st1] obtain n2 where n2:
      "bookings (snd (refund_rows lib code rs st1)) = bookings st1"
      "refunds (snd (refund_rows lib code rs st1)) = refunds st1 @ n2"
      "distinct (map refund_key n2)"
      "set (map refund_key n2) \<inter> set (map refund_key (refunds st1)) = {}"
      by blast
    have "refunds (snd (refund_rows lib code (r # rs) st)) = refunds st @ (n1 @ n2)"
      using row Inr n1 n2 by simp
    moreover have "distinct (map refund_key (n1 @ n2))"
      using n1 n2 by auto
    moreover have "set (map refund_key (n1 @ n2)) \<inter> set (map refund_key (refunds st)) = {}"
      using n1 n2 by auto
    moreover have "bookings (snd (refund_rows lib code (r # rs) st)) = bookings st"
      using row Inr n2 keep1 by simp
    ultimately show ?thesis by blast
  qed
qed


lemma distinct_at_most_one:
  "distinct (map f xs) \<Longrightarrow> length (filter (\<lambda>x. f x = k) xs) \<le> 1"
proof (induction xs)
  case Nil
  show ?case by simp
next
  case (Cons x xs)
  show ?case
  proof (cases "f x = k")
    case True
    with Cons.prems have "filter (\<lambda>x. f x = k) xs = []"
      by (force simp: filter_empty_conv image_iff)
    with True show ?thesis by simp
  next
    case False
    with Cons show ?thesis by simp
  qed
qed

lemma coerce_field_null: "row_get r name = Inr Null \<Longrightarrow> coerce_field r name = Inr 0"
  by (simp add: coerce_field_def)

lemma booking_row_skips:
  "coerce_field r ''irctc_order_no'' = Inr a \<Longrightarrow> coerce_field r ''bank_booking_ref_no'' = Inr b \<Longrightarrow>
   booking_exists (bookings st) a b \<Longrightarrow> snd (booking_row lib code r st) = st"
  by (simp add: booking_row_def split: sum.splits)

lemma refund_row_skips:
  "coerce_field r ''irctc_order_no'' = Inr a \<Longrightarrow> coerce_field r ''bank_booking_ref_no'' = Inr b \<Longrightarrow>
   refund_exists (refunds st) a b \<Longrightarrow> snd (refund_row lib code r st) = st"
  by (simp add: refund_row_def split: sum.splits)

text \<open>
  Claim C8.  Run in sequence, the row loop of either kind appends to its table records
  whose pairs (IRCTC order number, bank booking reference number), as coerced, differ from
  one another and from every pair already in the table, whether the loop ends or an
  exception stops it.  A missing reference field coerces to zero, so rows with both
  references missing share the pair (0, 0): once a record with that pair is stored such a
  row is skipped, and one run creates at most one record with it.
\<close>

theorem row_loops_create_no_duplicate_keys:
  "(\<exists>new. bookings (snd (booking_rows lib code rs st)) = bookings st @ new \<and>
      distinct (map booking_key new) \<and>
      set (map booking_key new) \<inter> set (map booking_key (bookings st)) = {} \<and>
      length (filter (\<lambda>x. booking_key x = (Some 0, Some 0)) new) \<le> 1) \<and>
   (\<exists>new. refunds (snd (refund_rows lib code rs st)) = refunds st @ new \<and>
      distinct (map refund_key new) \<and>
      set (map refund_key new) \<inter> set (map refund_key (refunds st)) = {} \<and>
      length (filter (\<lambda>x. refund_key x = (Some 0, Some 0)) new) \<le> 1) \<and>
   (row_get r name = Inr Null \<longrightarrow> coerce_field r name = Inr 0) \<and>
   (row_get r ''irctc_order_no'' = Inr Null \<and> row_get r ''bank_booking_ref_no'' = Inr Null \<and>
    booking_exists (bookings st) 0 0 \<longrightarrow> snd (booking_row lib code r st) = st) \<and>
   (row_get r ''irctc_order_no'' = Inr Null \<and> row_get r ''bank_booking_ref_no'' = Inr Null \<and>
    refund_exists (refunds st) 0 0 \<longrightarrow> snd (refund_row lib code r st) = st)"
proof -
  from booking_rows_appends [of lib code rs st] obtain nb where nb:
    "bookings (snd (booking_rows lib code rs st)) = bookings st @ nb"
    "distinct (map booking_key nb)"
    "set (map booking_key nb) \<inter> set (map booking_key (bookings st)) = {}"
    by blast
  from refund_rows_appends [of lib code rs st] obtain nr where nr:
    "refunds (snd (refund_rows lib code rs st)) = refunds st @ nr"
    "distinct (map refund_key nr)"
    "set (map refund_key nr) \<inter> set (map refund_key (refunds st)) = {}"
    by blast
  have b: "\<exists>new. bookings (snd (booking_rows lib code rs st)) = bookings st @ new \<and>
      distinct (map booking_key new) \<and>
      set (map booking_key new) \<inter> set (map booking_key (bookings st)) = {} \<and>
      length (filter (\<lambda>x. booking_key x = (Some 0, Some 0)) new) \<le> 1"
    using nb distinct_at_most_one [OF nb(2)] by blast
  have r: "\<exists>new. refunds (snd (refund_rows lib code rs st)) = refunds st @ new \<and>
      distinct (map refund_key new) \<and>
      set (map refund_key new) \<inter> set (map refund_key (refunds st)) = {} \<and>
      length (filter (\<lambda>x. refund_key x = (Some 0, Some 0)) new) \<le> 1"
    using nr distinct_at_most_one [OF nr(2)] by blast
  from b r show ?thesis
    by (simp add: coerce_field_null booking_row_skips refund_row_skips)
qed

theorem row_loops_create_no_duplicate_keys_witness:
  "bookings (snd (booking_rows plain_lib 40 [null_refs_row, null_refs_row] initial_state)) =
     [\<lparr>bank_code = 40, txn_date = Some (Date 2024 1 1), irctc_order_no = Some 0,
       bank_booking_ref_no = Some 0, booking_amount = Some (1000, 2), credited_date = None,
       cus_account_no = None, remarks = None\<rparr>] \<and>
   snd (booking_row plain_lib 40 null_refs_row
          (snd (booking_rows plain_lib 40 [null_refs_row] initial_state))) =
     snd (booking_rows plain_lib 40 [null_refs_row] initial_state) \<and>
   snd (refund_row plain_lib 40 null_refs_refund_row
          (snd (refund_rows plain_lib 40 [null_refs_refund_row] initial_state))) =
     snd (refund_rows plain_lib 40 [null_refs_refund_row] initial_state)"
proof -
  let ?st = "snd (booking_rows plain_lib 40 [null_refs_row] initial_state)"
  let ?rt = "snd (refund_rows plain_lib 40 [null_refs_refund_row] initial_state)"
  have run: "bookings (snd (booking_rows plain_lib 40 [null_refs_row, null_refs_row] initial_state)) =
     [\<lparr>bank_code = 40, txn_date = Some (Date 2024 1 1), irctc_order_no = Some 0,
       bank_booking_ref_no = Some 0, booking_amount = Some (1000, 2), credited_date = None,
       cus_account_no = None, remarks = None\<rparr>]"
    by code_simp
  have h1: "row_get null_refs_row ''irctc_order_no'' = Inr Null \<and>
      row_get null_refs_row ''bank_booking_ref_no'' = Inr Null \<and>
      booking_exists (bookings ?st) 0 0"
    by code_simp
  have h2: "row_get null_refs_refund_row ''irctc_order_no'' = Inr Null \<and>
      row_get null_refs_refund_row ''bank_booking_ref_no'' = Inr Null \<and>
      refund_exists (refunds ?rt) 0 0"
    by code_simp
  from row_loops_create_no_duplicate_keys [of plain_lib 40 "[]" ?st null_refs_row] h1
  have skip1: "snd (booking_row plain_lib 40 null_refs_row ?st) = ?st"
    by blast
  from row_loops_create_no_duplicate_keys [of plain_lib 40 "[]" ?rt null_refs_refund_row] h2
  have skip2: "snd (refund_row plain_lib 40 null_refs_refund_row ?rt) = ?rt"
    by blast
  from run skip1 skip2 show ?thesis
    by blast
qed

section \<open>The registry between runs\<close>

lemma map_of_set_kind:
  "map_of (map (\<lambda>(k, m). if k = kind then (k, m\<lparr>columns := cols\<rparr>) else (k, m)) kinds) k' =
   map_option (\<lambda>m. if k' = kind then m\<lparr>columns := cols\<rparr> else m) (map_of kinds k')"
  by (induction kinds) auto

lemma get_mapping_set_columns:
  "get_mapping (set_columns reg bank kind cols) b k =
   map_option (\<lambda>m. if b = bank \<and> k = kind then m\<lparr>columns := cols\<rparr> else m) (get_mapping reg b k)"
proof (induction reg)
  case Nil
  show ?case by (simp add: get_mapping_def set_columns_def)
next
  case (Cons entry reg)
  obtain b0 kinds where entry: "entry = (b0, kinds)" by (cases entry)
  from Cons show ?case
    by (auto simp: entry get_mapping_def set_columns_def map_of_set_kind option.map_ident
        split: option.splits)
qed

lemma reg_after_mapping:
  "rel_option (\<lambda>m m0. map clean_name (columns m) = map clean_name (columns m0))
     (get_mapping (reg_after earlier) b k) (get_mapping BANK_MAPPINGS b k)"
proof (induction earlier)
  case Nil
  show ?case by (simp add: option.rel_refl)
next
  case (Cons p earlier)
  obtain bank kind where p: "p = (bank, kind)" by (cases p)
  show ?case
  proof (cases "get_mapping (reg_after earlier) bank kind")
    case None
    with Cons p show ?thesis by simp
  next
    case (Some m)
    with Cons p show ?thesis
      by (cases "get_mapping (reg_after earlier) b k"; cases "get_mapping BANK_MAPPINGS b k")
         (auto simp: get_mapping_set_columns clean_name_idem comp_def)
  qed
qed

lemma booking_row_tables:
  "stored_tables st = stored_tables st' \<Longrightarrow>
   fst (booking_row lib code r st) = fst (booking_row lib code r st') \<and>
   stored_tables (snd (booking_row lib code r st)) = stored_tables (snd (booking_row lib code r st'))"
  by (cases "coerce_field r ''irctc_order_no''"; cases "coerce_field r ''bank_booking_ref_no''";
      cases "row_get r ''booking_amount''"; cases "row_get r ''txn_date''";
      cases "row_get r ''credited_date''")
     (simp_all add: booking_row_def stored_tables_def Let_def split: option.splits)

lemma refund_row_tables:
  "stored_tables st = stored_tables st' \<Longrightarrow>
   fst (refund_row lib code r st) = fst (refund_row lib code r st') \<and>
   stored_tables (snd (refund_row lib code r st)) = stored_tables (snd (refund_row lib code r st'))"
  by (cases "coerce_field r ''irctc_order_no''"; cases "coerce_field r ''bank_booking_ref_no''";
      cases "coerce_field r ''bank_refund_ref_no''"; cases "row_get r ''refund_amount''";
      cases "row_get r ''refund_date''"; cases "row_get r ''debited_date''")
     (simp_all add: refund_row_def stored_tables_def Let_def split: option.splits)

lemma booking_rows_tables:
  "stored_tables st = stored_tables st' \<Longrightarrow>
   fst (booking_rows lib code rs st) = fst (booking_rows lib code rs st') \<and>
   stored_tables (snd (booking_rows lib code rs st)) = stored_tables (snd (booking_rows lib code rs st'))"
proof (induction rs arbitrary: st st')
  case Nil
  then show ?case by simp
next
  case (Cons r rs)
  obtain x s1 where a: "booking_row lib code r st = (x, s1)"
    by (cases "booking_row lib code r st")
  obtain y s2 where b: "booking_row lib code r st' = (y, s2)"
    by (cases "booking_row lib code r st'")
  from booking_row_tables [OF Cons.prems, of lib code r] a b
  have same: "y = x" "stored_tables s1 = stored_tables s2" by simp_all
  show ?case
  proof (cases x)
    case (Inl e)
    then show ?thesis by (simp add: a b same)
  next
    case (Inr u)
    then show ?thesis using Cons.IH [OF same(2)] by (simp add: a b same)
  qed
qed

lemma refund_rows_tables:
  "stored_tables st = stored_tables st' \<Longrightarrow>
   fst (refund_rows lib code rs st) = fst (refund_rows lib code rs st') \<and>
   stored_tables (snd (refund_rows lib code rs st)) = stored_tables (snd (refund_rows lib code rs st'))"
proof (induction rs arbitrary: st st')
  case Nil
  then show ?case by simp
next
  case (Cons r rs)
  obtain x s1 where a: "refund_row lib code r st = (x, s1)"
    by (cases "refund_row lib code r st")
  obtain y s2 where b: "refund_row lib code r st' = (y, s2)"
    by (cases "refund_row lib code r st'")
  from refund_row_tables [OF Cons.prems, of lib code r] a b
  have same: "y = x" "stored_tables s1 = stored_tables s2" by simp_all
  show ?case
  proof (cases x)
    case (Inl e)
    then show ?thesis by (simp add: a b same)
  next
    case (Inr u)
    then show ?thesis using Cons.IH [OF same(2)] by (simp add: a b same)
  qed
qed

lemma booking_branch_tables:
  assumes "stored_tables st = stored_tables st'"
  shows "fst (booking_branch lib bank df st) = fst (booking_branch lib bank df st') \<and>
   stored_tables (snd (booking_branch lib bank df st)) =
     stored_tables (snd (booking_branch lib bank df st'))"
  by (simp add: booking_branch_def assms booking_rows_tables [OF assms] split: sum.splits)

lemma refund_branch_tables:
  assumes "stored_tables st = stored_tables st'"
  shows "fst (refund_branch lib bank df st) = fst (refund_branch lib bank df st') \<and>
   stored_tables (snd (refund_branch lib bank df st)) =
     stored_tables (snd (refund_branch lib bank df st'))"
  by (simp add: refund_branch_def assms refund_rows_tables [OF assms] split: sum.splits)

lemma stored_tables_registry [simp]: "stored_tables (st\<lparr>registry := reg\<rparr>) = stored_tables st"
  by (simp add: stored_tables_def)

lemma booking_branch_registry:
  "fst (booking_branch lib bank df (st\<lparr>registry := reg\<rparr>)) = fst (booking_branch lib bank df st) \<and>
   stored_tables (snd (booking_branch lib bank df (st\<lparr>registry := reg\<rparr>))) =
     stored_tables (snd (booking_branch lib bank df st))"
  by (rule booking_branch_tables) simp

lemma refund_branch_registry:
  "fst (refund_branch lib bank df (st\<lparr>registry := reg\<rparr>)) = fst (refund_branch lib bank df st) \<and>
   stored_tables (snd (refund_branch lib bank df (st\<lparr>registry := reg\<rparr>))) =
     stored_tables (snd (refund_branch lib bank df st))"
  by (rule refund_branch_tables) simp

lemma try_block_tables:
  assumes "stored_tables st = stored_tables st'"
    and "rel_option (\<lambda>m m'. map clean_name (columns m) = map clean_name (columns m'))
           (get_mapping (registry st) bank kind) (get_mapping (registry st') bank kind)"
  shows "fst (try_block lib content name bank kind st) = fst (try_block lib content name bank kind st') \<and>
     stored_tables (snd (try_block lib content name bank kind st)) =
       stored_tables (snd (try_block lib content name bank kind st'))"
proof (cases "load_frame lib content name")
  case (Inl e)
  with assms(1) show ?thesis by (simp add: try_block_def)
next
  case (Inr df0)
  show ?thesis
  proof (cases "get_mapping (registry st) bank kind")
    case None
    with assms(2) have "get_mapping (registry st') bank kind = None" by simp
    with None Inr assms(1) show ?thesis by (simp add: try_block_def)
  next
    case (Some m)
    with assms(2) obtain m' where m': "get_mapping (registry st') bank kind = Some m'"
      and cols: "map clean_name (columns m) = map clean_name (columns m')"
      by (auto simp: option_rel_Some1)
    show ?thesis
      by (simp add: try_block_def Inr Some m' cols Let_def assms(1)
          booking_branch_registry refund_branch_registry
          booking_branch_tables [OF assms(1)] refund_branch_tables [OF assms(1)])
  qed
qed

text \<open>
  Claim C9.  The only state a run keeps besides the stored tables is the registry, whose
  column lists line 157 overwrites with their normalised form.  Whatever runs came before
  (\<open>earlier\<close> and \<open>earlier'\<close>), two runs of the task on the same file content, file name,
  bank and kind, from the same stored tables, return the same status string and leave the
  same stored tables.  The library calls are functions of their arguments.
\<close>

theorem task_deterministic:
  "fst (process_uploaded_files lib file_content file_name bank_name transaction_type
          \<lparr>bookings = bs, refunds = rs, registry = reg_after earlier\<rparr>) =
   fst (process_uploaded_files lib file_content file_name bank_name transaction_type
          \<lparr>bookings = bs, refunds = rs, registry = reg_after earlier'\<rparr>) \<and>
   stored_tables (snd (process_uploaded_files lib file_content file_name bank_name transaction_type
          \<lparr>bookings = bs, refunds = rs, registry = reg_after earlier\<rparr>)) =
   stored_tables (snd (process_uploaded_files lib file_content file_name bank_name transaction_type
          \<lparr>bookings = bs, refunds = rs, registry = reg_after earlier'\<rparr>))"
proof -
  let ?st = "\<lparr>bookings = bs, refunds = rs, registry = reg_after earlier\<rparr>"
  let ?st' = "\<lparr>bookings = bs, refunds = rs, registry = reg_after earlier'\<rparr>"
  let ?R = "\<lambda>m m'. map clean_name (columns m) = map clean_name (columns m')"
  have tables: "stored_tables ?st = stored_tables ?st'"
    by (simp add: stored_tables_def)
  have "rel_option ?R (get_mapping (reg_after earlier) bank_name transaction_type)
          (get_mapping BANK_MAPPINGS bank_name transaction_type)"
    by (rule reg_after_mapping)
  moreover have "rel_option ?R (get_mapping (reg_after earlier') bank_name transaction_type)
          (get_mapping BANK_MAPPINGS bank_name transaction_type)"
    by (rule reg_after_mapping)
  ultimately have "rel_option ?R (get_mapping (reg_after earlier) bank_name transaction_type)
          (get_mapping (reg_after earlier') bank_name transaction_type)"
    by (cases "get_mapping (reg_after earlier) bank_name transaction_type";
        cases "get_mapping (reg_after earlier') bank_name transaction_type";
        cases "get_mapping BANK_MAPPINGS bank_name transaction_type") auto
  then have "rel_option ?R (get_mapping (registry ?st) bank_name transaction_type)
          (get_mapping (registry ?st') bank_name transaction_type)"
    by simp
  from try_block_tables [OF tables this, of lib file_content file_name]
  have same: "fst (try_block lib file_content file_name bank_name transaction_type ?st) =
      fst (try_block lib file_content file_name bank_name transaction_type ?st')"
    "stored_tables (snd (try_block lib file_content file_name bank_name transaction_type ?st)) =
      stored_tables (snd (try_block lib file_content file_name bank_name transaction_type ?st'))"
    by simp_all
  obtain x s where a: "try_block lib file_content file_name bank_name transaction_type ?st = (x, s)"
    by (cases "try_block lib file_content file_name bank_name transaction_type ?st")
  obtain y s' where b: "try_block lib file_content file_name bank_name transaction_type ?st' = (y, s')"
    by (cases "try_block lib file_content file_name bank_name transaction_type ?st'")
  from same a b have "y = x" "stored_tables s = stored_tables s'"
    by simp_all
  then show ?thesis
    by (cases x) (simp_all add: process_uploaded_files_def a b)
qed

section \<open>The task as a whole\<close>




text \<open>
  Claim C7, as amended.  For a file whose name ends in none of .csv, .txt, .xlsx, .xls,
  .ods, .json, the converter raises the unsupported-format error and catches it itself,
  returning the empty text.  Reading the empty text fails, so the task returns the failure
  string with the reader's error text, and the state is left as it was: no row is read and
  no record created.
\<close>

theorem unsupported_extension_fails_reading_empty_text:
  assumes "\<not> endswith file_name ''.csv''" "\<not> endswith file_name ''.txt''"
    "\<not> endswith file_name ''.xlsx''" "\<not> endswith file_name ''.xls''"
    "\<not> endswith file_name ''.ods''" "\<not> endswith file_name ''.json''"
    "read_csv lib [] CHR '','' = Inl e"
  shows "convert_to_csv lib file_content file_name = Inr [] \<and>
    process_uploaded_files lib file_content file_name bank_name transaction_type st =
      (Inr (''Failed to process '' @ file_name @ '': '' @ error_text e), st)"
  using assms
  by (simp add: process_uploaded_files_def try_block_def load_frame_def convert_to_csv_def
      convert_body_def)

theorem unsupported_extension_fails_reading_empty_text_witness:
  "process_uploaded_files plain_lib ''%PDF-1.4'' ''statement.pdf'' ''hdfc'' ''refund'' initial_state =
     (Inr ''Failed to process statement.pdf: No columns to parse from file'', initial_state)"
proof -
  have ext: "\<not> endswith ''statement.pdf'' ''.csv''" "\<not> endswith ''statement.pdf'' ''.txt''"
    "\<not> endswith ''statement.pdf'' ''.xlsx''" "\<not> endswith ''statement.pdf'' ''.xls''"
    "\<not> endswith ''statement.pdf'' ''.ods''" "\<not> endswith ''statement.pdf'' ''.json''"
    by code_simp+
  have empty: "read_csv plain_lib [] CHR '','' = Inl (LibraryError ''No columns to parse from file'')"
    by code_simp
  from unsupported_extension_fails_reading_empty_text [OF ext empty]
  show ?thesis by simp
qed

text \<open>
  The claim as first stated fails: the failure string of a .pdf file carries the reader's
  text, not the unsupported-format text.
\<close>

theorem unsupported_extension_counterexample:
  "fst (process_uploaded_files plain_lib karur_file ''bookings.pdf'' ''karur_vysya'' ''booking''
          initial_state) =
     Inr ''Failed to process bookings.pdf: No columns to parse from file'' \<and>
   \<not> contains ''Unsupported file format''
         ''Failed to process bookings.pdf: No columns to parse from file''"
  by code_simp

text \<open>
  Claim C1 at its input.  The file of the scenario, for bank karur_vysya and kind booking,
  on empty tables: the columns are found, but line 171 asks the table for the column
  \<open>txn_date\<close> while its columns still carry the normalised source names (the registry's
  \<open>column_mapping\<close> is never applied).  The task returns the failure string and stores no
  record.
\<close>

theorem karur_booking_scenario_fails:
  "process_uploaded_files plain_lib karur_file ''bookings.csv'' ''karur_vysya'' ''booking''
     initial_state =
   (Inr (''Failed to process bookings.csv: '' @ py_repr ''txn_date''),
    \<lparr>bookings = [], refunds = [],
     registry = set_columns BANK_MAPPINGS ''karur_vysya'' ''booking''
       [''TXNDATE'', ''IRCTCORDERNO'', ''BANKBOOKINGREFNO'', ''BOOKINGAMOUNT'', ''CREDITEDON'']\<rparr>)"
  by code_simp

text \<open>
  Claim C4 at the same input.  Submitting the file of the scenario twice: the second run,
  from the state the first one left, returns the failure string again; no row reaches the
  duplicate check in either run and the tables stay empty.
\<close>

theorem karur_booking_second_run_fails:
  "fst (process_uploaded_files plain_lib karur_file ''bookings.csv'' ''karur_vysya'' ''booking''
     (snd (process_uploaded_files plain_lib karur_file ''bookings.csv'' ''karur_vysya'' ''booking''
        initial_state))) =
     Inr (''Failed to process bookings.csv: '' @ py_repr ''txn_date'') \<and>
   stored_tables (snd (process_uploaded_files plain_lib karur_file ''bookings.csv''
     ''karur_vysya'' ''booking''
     (snd (process_uploaded_files plain_lib karur_file ''bookings.csv'' ''karur_vysya'' ''booking''
        initial_state)))) = ([], [])"
  by code_simp

section \<open>No run reaches the row loops\<close>

text \<open>
  The scenario above is not a special case.  After line 167 the table holds exactly the
  required columns, under their normalised source names; no entry of the registry has a
  required column named \<open>txn_date\<close> or \<open>refund_date\<close>, and nothing renames the
  columns.  So whenever the columns are all present, line 171 or line 201 raises
  \<open>KeyError\<close>: for every library behaviour, file, bank and kind, the body of the \<open>try\<close>
  ends in an exception and the stored tables are left as they were.
\<close>

lemma registry_column_names:
  "list_all (\<lambda>(b, kinds). list_all (\<lambda>(k, m).
      (k = ''booking'' \<or> k = ''refund'') \<and>
      ''txn_date'' \<notin> set (map clean_name (columns m)) \<and>
      ''refund_date'' \<notin> set (map clean_name (columns m))) kinds) BANK_MAPPINGS"
  by code_simp

lemma get_mapping_column_names:
  assumes "get_mapping BANK_MAPPINGS b k = Some m"
  shows "(k = ''booking'' \<or> k = ''refund'') \<and>
      ''txn_date'' \<notin> set (map clean_name (columns m)) \<and>
      ''refund_date'' \<notin> set (map clean_name (columns m))"
proof -
  from assms obtain kinds where "map_of BANK_MAPPINGS b = Some kinds" "map_of kinds k = Some m"
    by (auto simp: get_mapping_def split: option.splits)
  then have "(b, kinds) \<in> set BANK_MAPPINGS" "(k, m) \<in> set kinds"
    by (auto dest: map_of_SomeD)
  with registry_column_names show ?thesis
    by (fastforce simp: list_all_iff)
qed

lemma select_columns_names: "set (df_columns (select_columns req df)) \<subseteq> set req"
  by (auto simp: select_columns_def)

lemma apply_column_missing:
  "name \<notin> set (df_columns df) \<Longrightarrow> apply_column f name df = Inl (KeyError name)"
proof -
  assume "name \<notin> set (df_columns df)"
  then have "filter (\<lambda>n. n = name) (df_columns df) = []"
    by (auto simp: filter_empty_conv)
  then show ?thesis
    by (simp add: apply_column_def)
qed

lemma task_never_stores:
  "(\<exists>e. fst (try_block lib file_content file_name bank_name transaction_type
             \<lparr>bookings = bs, refunds = rs, registry = reg_after earlier\<rparr>) = Inl e) \<and>
   stored_tables (snd (try_block lib file_content file_name bank_name transaction_type
             \<lparr>bookings = bs, refunds = rs, registry = reg_after earlier\<rparr>)) = (bs, rs)"
proof (cases "load_frame lib file_content file_name")
  case (Inl e)
  then show ?thesis by (simp add: try_block_def stored_tables_def)
next
  case (Inr df0)
  show ?thesis
  proof (cases "get_mapping (reg_after earlier) bank_name transaction_type")
    case None
    with Inr show ?thesis by (simp add: try_block_def stored_tables_def)
  next
    case (Some m)
    with reg_after_mapping [of earlier bank_name transaction_type]
    obtain m0 where m0: "get_mapping BANK_MAPPINGS bank_name transaction_type = Some m0"
      and cols: "map clean_name (columns m) = map clean_name (columns m0)"
      by (auto simp: option_rel_Some1)
    from get_mapping_column_names [OF m0] cols
    have kind: "transaction_type = ''booking'' \<or> transaction_type = ''refund''"
      and txn: "''txn_date'' \<notin> set (map clean_name (columns m))"
      and ref: "''refund_date'' \<notin> set (map clean_name (columns m))"
      by simp_all
    let ?df = "select_columns (map clean_name (columns m))
                 (df0\<lparr>df_columns := map clean_name (df_columns df0)\<rparr>)"
    from txn select_columns_names have "''txn_date'' \<notin> set (df_columns ?df)"
      by blast
    then have a: "apply_column f ''txn_date'' ?df = Inl (KeyError ''txn_date'')" for f
      by (rule apply_column_missing)
    from ref select_columns_names have "''refund_date'' \<notin> set (df_columns ?df)"
      by blast
    then have b: "apply_column f ''refund_date'' ?df = Inl (KeyError ''refund_date'')" for f
      by (rule apply_column_missing)
    from kind show ?thesis
      by (auto simp: try_block_def Inr Some Let_def booking_branch_def refund_branch_def a b
          stored_tables_def)
  qed
qed

end
